theory Spec2Isabelle
  imports Complex_Main "HOL-Library.Multiset" "HOL-Library.Sublist"
begin

section \<open>JavaScript values used by the cart and the cropper\<close>

text \<open>
  A JavaScript number is modelled as a finite real, or one of the three non-finite
  doubles. Finite arithmetic is exact: the rounding of IEEE doubles is not part of the
  model, only the places where JavaScript leaves the finite numbers are (division by
  zero, arithmetic on \<open>undefined\<close>).
\<close>

datatype jsnum = Num real | NaN | PosInf | NegInf

text \<open>A field of a JSON object that is expected to hold a number.\<close>

datatype jsval = Undefined | Null | Number real

text \<open>\<open>a || b\<close> on such fields: \<open>undefined\<close>, \<open>null\<close> and \<open>0\<close> are falsy.\<close>

fun truthy :: "jsval \<Rightarrow> bool" where
  "truthy Undefined = False"
| "truthy Null = False"
| "truthy (Number n) = (n \<noteq> 0)"

definition js_or :: "jsval \<Rightarrow> jsval \<Rightarrow> jsval" where
  "js_or a b = (if truthy a then a else b)"

text \<open>\<open>v - 1\<close>: \<open>undefined\<close> converts to NaN, \<open>null\<close> to 0.\<close>

fun js_minus_one :: "jsval \<Rightarrow> jsnum" where
  "js_minus_one Undefined = NaN"
| "js_minus_one Null = Num (- 1)"
| "js_minus_one (Number n) = Num (n - 1)"

text \<open>\<open>a / b\<close> on finite numbers: a zero divisor gives NaN or an infinity.\<close>

definition js_div :: "real \<Rightarrow> real \<Rightarrow> jsnum" where
  "js_div a b =
     (if b = 0 then (if a = 0 then NaN else if 0 < a then PosInf else NegInf)
      else Num (a / b))"

text \<open>\<open>a || b\<close> on strings: the empty string and \<open>undefined\<close> are falsy.\<close>

definition str_or :: "string option \<Rightarrow> string \<Rightarrow> string" where
  "str_or a b = (case a of None \<Rightarrow> b | Some s \<Rightarrow> if s = [] then b else s)"

section \<open>CropperModal: handleConfirm\<close>

text \<open>
  \<open>completedCrop\<close> is the pixel rectangle reported by the crop widget, \<open>img\<close> (the
  source's \<open>image\<close>) the rendered \<open>img\<close> element (its \<open>width\<close> and \<open>height\<close> are non-negative integers).
  The fields \<open>x\<close>, \<open>y\<close>, \<open>width\<close>, \<open>height\<close> of the source carry a prefix here.
\<close>

record PixelCrop =
  px_x :: real
  px_y :: real
  px_width :: real
  px_height :: real

record img_element =
  img_width :: nat
  img_height :: nat

record FractionalCrop =
  fx :: jsnum
  fy :: jsnum
  fwidth :: jsnum
  fheight :: jsnum

text \<open>
  The value of \<open>handleConfirm\<close> is the argument it passes to \<open>onConfirm\<close>:
  \<open>None\<close> is \<open>null\<close>. \<open>completedCrop\<close> is \<open>None\<close> while no crop has been completed,
  \<open>imgRef.current\<close> is \<open>None\<close> while the image is not mounted.
\<close>

definition handleConfirm :: "PixelCrop option \<Rightarrow> img_element option \<Rightarrow> FractionalCrop option" where
  "handleConfirm completedCrop imgRef =
     (case completedCrop of
        None \<Rightarrow> None
      | Some c \<Rightarrow>
          (case imgRef of
             None \<Rightarrow> None
           | Some img \<Rightarrow>
               Some \<lparr> fx = js_div (px_x c) (real (img_width img)),
                      fy = js_div (px_y c) (real (img_height img)),
                      fwidth = js_div (px_width c) (real (img_width img)),
                      fheight = js_div (px_height c) (real (img_height img)) \<rparr>))"

section \<open>App: the cart\<close>

record uploaded_file =
  filename :: string

record search_result =
  res_source_filename :: "string option"
  res_page_number :: jsval
  res_page :: jsval
  res_description :: "string option"
  res_image_url :: "string option"

record cart_item =
  item_id :: nat
  source_pdf :: string
  page_number :: jsnum
  order :: nat
  description :: "string option"
  crop_box :: "FractionalCrop option"

record app_state =
  files :: "uploaded_file list"
  searchQuery :: string
  searchResults :: "search_result list"
  cart :: "cart_item list"
  isProcessing :: bool
  cacheId :: "string option"

text \<open>The page number shown beside a search result: \<open>result.page_number || result.page\<close>.\<close>

definition pageNum :: "search_result \<Rightarrow> jsval" where
  "pageNum result = js_or (res_page_number result) (res_page result)"

text \<open>\<open>now\<close> is the value of \<open>Date.now()\<close> at the call.\<close>

definition newItem :: "app_state \<Rightarrow> nat \<Rightarrow> search_result \<Rightarrow> FractionalCrop option \<Rightarrow> cart_item" where
  "newItem st now result crop =
     \<lparr> item_id = now,
       source_pdf = str_or (res_source_filename result)
                      (if length (files st) > 0 then filename (hd (files st)) else []),
       page_number = js_minus_one (js_or (res_page_number result) (res_page result)),
       order = length (cart st),
       description = res_description result,
       crop_box = crop \<rparr>"

definition addToCart :: "app_state \<Rightarrow> nat \<Rightarrow> search_result \<Rightarrow> FractionalCrop option \<Rightarrow> app_state" where
  "addToCart st now result crop = st\<lparr>cart := cart st @ [newItem st now result crop]\<rparr>"

definition removeFromCart :: "app_state \<Rightarrow> nat \<Rightarrow> app_state" where
  "removeFromCart st i = st\<lparr>cart := filter (\<lambda>item. item_id item \<noteq> i) (cart st)\<rparr>"

section \<open>App: generatePDF\<close>

text \<open>One element of the \<open>selections\<close> array of the request body; \<open>None\<close> is \<open>null\<close>.\<close>

record selection =
  sel_source_pdf :: string
  sel_page_number :: jsnum
  sel_crop_box :: "jsnum list option"

text \<open>
  \<open>s.crop_box ? [...] : null\<close>: a crop object is truthy whatever its fields hold, so
  only \<open>null\<close> takes the second branch.
\<close>

definition toSelection :: "cart_item \<Rightarrow> selection" where
  "toSelection s =
     \<lparr> sel_source_pdf = source_pdf s,
       sel_page_number = page_number s,
       sel_crop_box =
         (case crop_box s of
            Some c \<Rightarrow> Some [fx c, fy c, fwidth c, fheight c]
          | None \<Rightarrow> None) \<rparr>"

text \<open>
  \<open>cart.sort((a, b) => a.order - b.order)\<close>. \<open>Array.prototype.sort\<close> is stable
  (ECMAScript 2019) and sorts the array in place; a stable sort by a key has one
  result, the one \<^const>\<open>sort_key\<close> computes.
\<close>

definition sortedSelections :: "cart_item list \<Rightarrow> cart_item list" where
  "sortedSelections c = sort_key order c"

definition request_selections :: "cart_item list \<Rightarrow> selection list" where
  "request_selections c = map toSelection (sortedSelections c)"

text \<open>
  What the \<open>await\<close>s of \<open>generatePDF\<close> bring back: \<open>Throws\<close> when \<open>fetch\<close> or
  \<open>response.json()\<close> rejects or \<open>data\<close> has no properties to read, otherwise
  \<open>data.status\<close> and \<open>data.download_url\<close> (\<open>None\<close> where the field is not a string).
\<close>

datatype fetch_outcome = Throws | Responds "string option" "string option"

datatype effect =
    Fetch "selection list"
  | WindowOpen "string option"
  | ConsoleError
  | Alert string

text \<open>
  One run of \<open>generatePDF\<close>, with no other handler running while it awaits. The sort
  works on the array the state holds, so the state's cart is sorted from then on.
\<close>

definition generatePDF :: "app_state \<Rightarrow> fetch_outcome \<Rightarrow> app_state \<times> effect list" where
  "generatePDF st outcome =
     (if length (cart st) = 0 then (st, [])
      else
        (let st1 = st\<lparr>isProcessing := True\<rparr>;
             st2 = st1\<lparr>cart := sortedSelections (cart st1)\<rparr>;
             request = Fetch (request_selections (cart st1))
         in case outcome of
              Responds status download_url \<Rightarrow>
                (if status = Some ''success''
                 then (st2\<lparr>cart := [], isProcessing := False\<rparr>, [request, WindowOpen download_url])
                 else (st2\<lparr>isProcessing := False\<rparr>, [request]))
            | Throws \<Rightarrow>
                (st2\<lparr>isProcessing := False\<rparr>,
                 [request, ConsoleError, Alert ''PDF generation failed. Please try again.''])))"

text \<open>The response reports success: \<open>data.status === 'success'\<close>.\<close>

definition reports_success :: "fetch_outcome \<Rightarrow> bool" where
  "reports_success outcome =
     (case outcome of Responds status download_url \<Rightarrow> status = Some ''success'' | Throws \<Rightarrow> False)"

text \<open>
  PageApprover: the cropper's \<open>onConfirm\<close> hands its argument to \<open>handleApprove\<close>, which
  hands it to \<open>onApprove\<close>, which App binds to \<open>addToCart(result, crop)\<close>.
\<close>

definition handleApprove :: "app_state \<Rightarrow> nat \<Rightarrow> search_result \<Rightarrow> FractionalCrop option \<Rightarrow> app_state" where
  "handleApprove st now result crop = addToCart st now result crop"

text \<open>Pressing Confirm Crop in the cropper opened on a search result.\<close>

definition confirmCrop ::
  "app_state \<Rightarrow> nat \<Rightarrow> search_result \<Rightarrow> PixelCrop option \<Rightarrow> img_element option \<Rightarrow> app_state" where
  "confirmCrop st now result completedCrop imgRef =
     handleApprove st now result (handleConfirm completedCrop imgRef)"

section \<open>Properties the specification names\<close>

text \<open>
  Crop containment: each component is a number, \<open>0 \<le> x\<close>, \<open>0 \<le> y\<close>,
  \<open>x + width \<le> 1\<close> and \<open>y + height \<le> 1\<close>.
\<close>

definition contained :: "FractionalCrop \<Rightarrow> bool" where
  "contained c =
     (case (fx c, fy c, fwidth c, fheight c) of
        (Num a, Num b, Num w, Num h) \<Rightarrow> 0 \<le> a \<and> 0 \<le> b \<and> a + w \<le> 1 \<and> b + h \<le> 1
      | _ \<Rightarrow> False)"

text \<open>Zero or negative, as a JavaScript comparison \<open>v <= 0\<close> decides it.\<close>

fun nonpositive :: "jsnum \<Rightarrow> bool" where
  "nonpositive (Num v) = (v \<le> 0)"
| "nonpositive NegInf = True"
| "nonpositive PosInf = False"
| "nonpositive NaN = False"

definition degenerate :: "FractionalCrop \<Rightarrow> bool" where
  "degenerate c = (nonpositive (fwidth c) \<or> nonpositive (fheight c))"

section \<open>CropNormalizer.toAbsolute and PdfAssembler.assemble\<close>

text \<open>Multiplication of a number of the model by a finite one, and a rectangle in page units.\<close>

fun js_mul :: "jsnum \<Rightarrow> real \<Rightarrow> jsnum" where
  "js_mul (Num a) b = Num (a * b)"
| "js_mul NaN b = NaN"
| "js_mul PosInf b = (if b = 0 then NaN else if 0 < b then PosInf else NegInf)"
| "js_mul NegInf b = (if b = 0 then NaN else if 0 < b then NegInf else PosInf)"

record AbsoluteRect =
  ax :: jsnum
  ay :: jsnum
  awidth :: jsnum
  aheight :: jsnum

text \<open>
  Modelled from the spec: \<open>toAbsolute\<close> belongs to the backend, which is not among the
  source files. The specification gives it as the inverse of \<open>toFraction\<close>, from a
  fractional crop to a rectangle in page units: each fraction is multiplied by the
  page dimension \<open>toFraction\<close> divided by.
\<close>

definition toAbsolute :: "FractionalCrop \<Rightarrow> real \<Rightarrow> real \<Rightarrow> AbsoluteRect" where
  "toAbsolute c page_width page_height =
     \<lparr> ax = js_mul (fx c) page_width,
       ay = js_mul (fy c) page_height,
       awidth = js_mul (fwidth c) page_width,
       aheight = js_mul (fheight c) page_height \<rparr>"

text \<open>
  Modelled from the spec: the Selection of section 3 (its \<open>crop\<close> and \<open>order\<close> carry a
  prefix here), a page of the PageStore with its size in page units, a page of the
  output, and the two errors of assembly. None of them is among the source files.
\<close>

record Selection =
  source_document :: string
  page_index :: nat
  spec_crop :: "FractionalCrop option"
  spec_order :: nat

record source_page =
  page_width :: real
  page_height :: real
  copyable :: bool

record output_page =
  out_document :: string
  out_page_index :: nat
  out_clip :: "AbsoluteRect option"
  out_width :: jsnum
  out_height :: jsnum

datatype assembly_error = SelectionResolutionError Selection | AssemblyError

type_synonym page_store = "string \<times> nat \<Rightarrow> source_page option"

text \<open>
  Modelled from the spec: one page of the output. A null crop copies the full source
  page at its own size; a crop is converted by \<open>toAbsolute\<close> and the new page has the
  crop's absolute size. \<open>copyable\<close> stands for the PDF library accepting the page.
\<close>

definition place_page :: "page_store \<Rightarrow> Selection \<Rightarrow> output_page option" where
  "place_page store s =
     (case store (source_document s, page_index s) of
        None \<Rightarrow> None
      | Some p \<Rightarrow>
          if \<not> copyable p then None
          else
            (case spec_crop s of
               None \<Rightarrow>
                 Some \<lparr> out_document = source_document s, out_page_index = page_index s,
                        out_clip = None,
                        out_width = Num (page_width p), out_height = Num (page_height p) \<rparr>
             | Some c \<Rightarrow>
                 (let r = toAbsolute c (page_width p) (page_height p)
                  in Some \<lparr> out_document = source_document s, out_page_index = page_index s,
                            out_clip = Some r,
                            out_width = awidth r, out_height = aheight r \<rparr>)))"

text \<open>
  Modelled from the spec: \<open>assemble\<close> belongs to the backend, which is not among the
  source files. It follows section 4.5: every selection must resolve in the store
  (the first that does not is reported), zero selections are an AssemblyError, the
  pages are placed in ascending \<open>order\<close>, and a page the PDF library refuses is an
  AssemblyError.
\<close>

definition assemble :: "Selection list \<Rightarrow> page_store \<Rightarrow> assembly_error + output_page list" where
  "assemble selections store =
     (case find (\<lambda>s. store (source_document s, page_index s) = None) selections of
        Some s \<Rightarrow> Inl (SelectionResolutionError s)
      | None \<Rightarrow>
          if selections = [] then Inl AssemblyError
          else
            (case those (map (place_page store) (sort_key spec_order selections)) of
               None \<Rightarrow> Inl AssemblyError
             | Some pages \<Rightarrow> Inr pages))"

section \<open>Auxiliary facts\<close>

lemma sortedSelections_Nil: "sortedSelections c = [] \<longleftrightarrow> c = []"
  using length_sort[of order c] unfolding sortedSelections_def by (metis length_0_conv)

lemma generatePDF_request:
  "cart st \<noteq> [] \<Longrightarrow>
     \<exists>rest. snd (generatePDF st outcome) = Fetch (request_selections (cart st)) # rest"
  by (cases outcome) (simp_all add: generatePDF_def Let_def)

lemma generatePDF_Fetch_mem:
  "Fetch sels \<in> set (snd (generatePDF st outcome)) \<Longrightarrow>
     cart st \<noteq> [] \<and> sels = request_selections (cart st)"
  by (cases outcome) (auto simp add: generatePDF_def Let_def split: if_splits)

lemma pageNum_page_number:
  "n \<noteq> 0 \<Longrightarrow> res_page_number result = Number n \<Longrightarrow> pageNum result = Number n"
  by (simp add: pageNum_def js_or_def)

lemma pageNum_page:
  "res_page_number result = Undefined \<Longrightarrow> res_page result = Number n \<Longrightarrow> pageNum result = Number n"
  by (simp add: pageNum_def js_or_def)

section \<open>The page number of an approved result\<close>

text \<open>
  C1: when a search result whose reported (1-based) page number is \<open>n\<close> is approved,
  the item appended to the cart carries \<open>page_number = n - 1\<close>, and a generate
  request made from that cart contains the item's selection with that same value.
\<close>

theorem addToCart_page_number:
  "pageNum result = Number n \<Longrightarrow>
     cart (addToCart st now result crop) = cart st @ [newItem st now result crop] \<and>
     page_number (newItem st now result crop) = Num (n - 1) \<and>
     (\<exists>rest. snd (generatePDF (addToCart st now result crop) outcome) =
        Fetch (request_selections (cart (addToCart st now result crop))) # rest) \<and>
     toSelection (newItem st now result crop)
       \<in> set (request_selections (cart (addToCart st now result crop))) \<and>
     sel_page_number (toSelection (newItem st now result crop)) = Num (n - 1)"
proof -
  assume pn: "pageNum result = Number n"
  let ?st = "addToCart st now result crop"
  have appended: "cart ?st = cart st @ [newItem st now result crop]"
    by (simp add: addToCart_def)
  have page: "page_number (newItem st now result crop) = Num (n - 1)"
    using pn by (simp add: newItem_def pageNum_def)
  have "cart ?st \<noteq> []"
    by (simp add: appended)
  then have sent: "\<exists>rest. snd (generatePDF ?st outcome) = Fetch (request_selections (cart ?st)) # rest"
    by (rule generatePDF_request)
  have mem: "toSelection (newItem st now result crop) \<in> set (request_selections (cart ?st))"
    by (simp add: request_selections_def sortedSelections_def appended)
  have "sel_page_number (toSelection (newItem st now result crop)) = Num (n - 1)"
    using page by (simp add: toSelection_def)
  with appended page sent mem show ?thesis
    by blast
qed

theorem addToCart_page_number_witness:
  "pageNum \<lparr>res_source_filename = Some ''a.pdf'', res_page_number = Number 3, res_page = Undefined,
            res_description = None, res_image_url = None\<rparr> = Number 3 \<and>
   page_number (newItem
      \<lparr>files = [], searchQuery = [], searchResults = [], cart = [], isProcessing = False, cacheId = None\<rparr>
      5
      \<lparr>res_source_filename = Some ''a.pdf'', res_page_number = Number 3, res_page = Undefined,
        res_description = None, res_image_url = None\<rparr>
      None) = Num 2"
proof -
  let ?r = "\<lparr>res_source_filename = Some ''a.pdf'', res_page_number = Number 3, res_page = Undefined,
             res_description = None, res_image_url = None\<rparr>"
  have h: "pageNum ?r = Number 3"
    by (simp add: pageNum_def js_or_def)
  show ?thesis
    using h addToCart_page_number [OF h,
        of "\<lparr>files = [], searchQuery = [], searchResults = [], cart = [], isProcessing = False, cacheId = None\<rparr>"
           5 None Throws]
    by simp
qed

section \<open>The fractional crop\<close>

text \<open>
  C4: for a completed pixel rectangle on an image of positive width and height,
  \<open>handleConfirm\<close> hands over exactly the four coordinates, each divided by the
  image dimension of its axis.
\<close>

theorem handleConfirm_divides:
  "0 < img_width img \<Longrightarrow> 0 < img_height img \<Longrightarrow>
     handleConfirm (Some c) (Some img) =
       Some \<lparr> fx = Num (px_x c / real (img_width img)),
              fy = Num (px_y c / real (img_height img)),
              fwidth = Num (px_width c / real (img_width img)),
              fheight = Num (px_height c / real (img_height img)) \<rparr>"
  by (simp add: handleConfirm_def js_div_def)

theorem handleConfirm_divides_witness:
  "0 < img_width \<lparr>img_width = 4, img_height = 8\<rparr> \<and>
   0 < img_height \<lparr>img_width = 4, img_height = 8\<rparr> \<and>
   handleConfirm (Some \<lparr>px_x = 1, px_y = 2, px_width = 2, px_height = 4\<rparr>)
       (Some \<lparr>img_width = 4, img_height = 8\<rparr>) =
     Some \<lparr>fx = Num (1 / 4), fy = Num (1 / 4), fwidth = Num (1 / 2), fheight = Num (1 / 2)\<rparr>"
  using handleConfirm_divides [of "\<lparr>img_width = 4, img_height = 8\<rparr>"
      "\<lparr>px_x = 1, px_y = 2, px_width = 2, px_height = 4\<rparr>"]
  by simp

text \<open>
  C2, as the code has it: \<open>handleConfirm\<close> does not clamp. For an image of positive
  width and height and a completed pixel rectangle that lies within the image
  (\<open>0 \<le> x\<close>, \<open>0 \<le> y\<close>, \<open>x + width \<le> w\<close>, \<open>y + height \<le> h\<close>), the fractional crop
  it hands over satisfies \<open>0 \<le> x\<close>, \<open>0 \<le> y\<close>, \<open>x + width \<le> 1\<close>, \<open>y + height \<le> 1\<close>.
\<close>

theorem handleConfirm_contained:
  "0 < img_width img \<Longrightarrow> 0 < img_height img \<Longrightarrow>
   0 \<le> px_x c \<Longrightarrow> 0 \<le> px_y c \<Longrightarrow>
   px_x c + px_width c \<le> real (img_width img) \<Longrightarrow>
   px_y c + px_height c \<le> real (img_height img) \<Longrightarrow>
     \<exists>f. handleConfirm (Some c) (Some img) = Some f \<and> contained f"
  by (simp add: handleConfirm_def js_div_def contained_def add_divide_distrib [symmetric])

theorem handleConfirm_contained_witness:
  "0 < img_width \<lparr>img_width = 4, img_height = 8\<rparr> \<and>
   0 < img_height \<lparr>img_width = 4, img_height = 8\<rparr> \<and>
   (0::real) \<le> px_x \<lparr>px_x = 1, px_y = 2, px_width = 3, px_height = 6\<rparr> \<and>
   (0::real) \<le> px_y \<lparr>px_x = 1, px_y = 2, px_width = 3, px_height = 6\<rparr> \<and>
   px_x \<lparr>px_x = 1, px_y = 2, px_width = 3, px_height = 6\<rparr>
     + px_width \<lparr>px_x = 1, px_y = 2, px_width = 3, px_height = 6\<rparr>
     \<le> real (img_width \<lparr>img_width = 4, img_height = 8\<rparr>) \<and>
   px_y \<lparr>px_x = 1, px_y = 2, px_width = 3, px_height = 6\<rparr>
     + px_height \<lparr>px_x = 1, px_y = 2, px_width = 3, px_height = 6\<rparr>
     \<le> real (img_height \<lparr>img_width = 4, img_height = 8\<rparr>) \<and>
   (\<exists>f. handleConfirm (Some \<lparr>px_x = 1, px_y = 2, px_width = 3, px_height = 6\<rparr>)
          (Some \<lparr>img_width = 4, img_height = 8\<rparr>) = Some f \<and> contained f)"
  using handleConfirm_contained [of "\<lparr>img_width = 4, img_height = 8\<rparr>"
      "\<lparr>px_x = 1, px_y = 2, px_width = 3, px_height = 6\<rparr>"]
  by simp

text \<open>
  C2 as stated fails: a selection that overshoots the right edge of a 4 by 4 image
  (\<open>x = 3\<close>, \<open>width = 2\<close>) is handed over with \<open>x + width = 5/4\<close>.
\<close>

theorem handleConfirm_not_clamped:
  "handleConfirm (Some \<lparr>px_x = 3, px_y = 0, px_width = 2, px_height = 1\<rparr>)
       (Some \<lparr>img_width = 4, img_height = 4\<rparr>) =
     Some \<lparr>fx = Num (3 / 4), fy = Num 0, fwidth = Num (1 / 2), fheight = Num (1 / 4)\<rparr> \<and>
   \<not> contained \<lparr>fx = Num (3 / 4), fy = Num 0, fwidth = Num (1 / 2), fheight = Num (1 / 4)\<rparr>"
  by (simp add: handleConfirm_def js_div_def contained_def)

text \<open>
  C6, as the code has it: \<open>handleConfirm\<close> has no failing path. For an image of
  positive width and height it hands over a fractional crop for every completed
  pixel rectangle, and that crop is degenerate (zero or negative width or height)
  exactly when the pixel rectangle is.
\<close>

theorem handleConfirm_degenerate:
  "0 < img_width img \<Longrightarrow> 0 < img_height img \<Longrightarrow>
     \<exists>f. handleConfirm (Some c) (Some img) = Some f \<and>
         (degenerate f \<longleftrightarrow> px_width c \<le> 0 \<or> px_height c \<le> 0)"
  by (simp add: handleConfirm_def js_div_def degenerate_def divide_le_0_iff)

theorem handleConfirm_degenerate_witness:
  "0 < img_width \<lparr>img_width = 4, img_height = 8\<rparr> \<and>
   0 < img_height \<lparr>img_width = 4, img_height = 8\<rparr> \<and>
   (\<exists>f. handleConfirm (Some \<lparr>px_x = 1, px_y = 2, px_width = 0, px_height = 4\<rparr>)
          (Some \<lparr>img_width = 4, img_height = 8\<rparr>) = Some f \<and> degenerate f)"
  using handleConfirm_degenerate [of "\<lparr>img_width = 4, img_height = 8\<rparr>"
      "\<lparr>px_x = 1, px_y = 2, px_width = 0, px_height = 4\<rparr>"]
  by simp

text \<open>
  C6 as stated fails: a click that completes a crop of width and height 0 on a
  4 by 4 image is handed over as a fractional crop of width and height 0.
\<close>

theorem handleConfirm_returns_degenerate:
  "handleConfirm (Some \<lparr>px_x = 1, px_y = 1, px_width = 0, px_height = 0\<rparr>)
       (Some \<lparr>img_width = 4, img_height = 4\<rparr>) =
     Some \<lparr>fx = Num (1 / 4), fy = Num (1 / 4), fwidth = Num 0, fheight = Num 0\<rparr> \<and>
   degenerate \<lparr>fx = Num (1 / 4), fy = Num (1 / 4), fwidth = Num 0, fheight = Num 0\<rparr>"
  by (simp add: handleConfirm_def js_div_def degenerate_def)

text \<open>
  C5: for an image of positive width \<open>w\<close> and height \<open>h\<close>, \<open>toAbsolute\<close> with the same
  dimensions gives back the pixel rectangle that \<open>handleConfirm\<close> turned into a
  fraction. In the exact arithmetic of this model the two rectangles are equal, so
  they agree within every tolerance.
\<close>

theorem toAbsolute_handleConfirm:
  "0 < w \<Longrightarrow> 0 < h \<Longrightarrow>
     \<exists>f. handleConfirm (Some r) (Some \<lparr>img_width = w, img_height = h\<rparr>) = Some f \<and>
         toAbsolute f (real w) (real h) =
           \<lparr>ax = Num (px_x r), ay = Num (px_y r),
            awidth = Num (px_width r), aheight = Num (px_height r)\<rparr>"
  by (simp add: handleConfirm_def js_div_def toAbsolute_def)

theorem toAbsolute_handleConfirm_witness:
  "(0::nat) < 4 \<and> (0::nat) < 8 \<and>
   (\<exists>f. handleConfirm (Some \<lparr>px_x = 1, px_y = 2, px_width = 3, px_height = 5\<rparr>)
          (Some \<lparr>img_width = 4, img_height = 8\<rparr>) = Some f \<and>
        toAbsolute f 4 8 = \<lparr>ax = Num 1, ay = Num 2, awidth = Num 3, aheight = Num 5\<rparr>)"
  using toAbsolute_handleConfirm [of 4 8 "\<lparr>px_x = 1, px_y = 2, px_width = 3, px_height = 5\<rparr>"]
  by simp

section \<open>The generate request\<close>

text \<open>
  C3: the request of \<open>generatePDF\<close> on a cart that is not empty carries the
  selections of the cart sorted in ascending \<open>order\<close>; items of equal \<open>order\<close> keep
  the sequence they have in the cart; and the request has as many selections as the
  cart has items.
\<close>

theorem generatePDF_sorted:
  "cart st \<noteq> [] \<Longrightarrow>
     (\<exists>rest. snd (generatePDF st outcome) = Fetch (request_selections (cart st)) # rest) \<and>
     request_selections (cart st) = map toSelection (sortedSelections (cart st)) \<and>
     sorted (map order (sortedSelections (cart st))) \<and>
     mset (sortedSelections (cart st)) = mset (cart st) \<and>
     (\<forall>k. filter (\<lambda>s. order s = k) (sortedSelections (cart st)) =
          filter (\<lambda>s. order s = k) (cart st)) \<and>
     length (request_selections (cart st)) = length (cart st)"
  using generatePDF_request [of st outcome]
  by (simp add: request_selections_def sortedSelections_def sort_key_stable)

theorem generatePDF_sorted_witness:
  "cart \<lparr>files = [], searchQuery = [], searchResults = [],
         cart = [\<lparr>item_id = 7, source_pdf = ''a.pdf'', page_number = Num 2, order = 2,
                  description = None, crop_box = None\<rparr>,
                 \<lparr>item_id = 9, source_pdf = ''a.pdf'', page_number = Num 0, order = 1,
                  description = None, crop_box = None\<rparr>],
         isProcessing = False, cacheId = None\<rparr> \<noteq> [] \<and>
   length (request_selections
     [\<lparr>item_id = 7, source_pdf = ''a.pdf'', page_number = Num 2, order = 2,
       description = None, crop_box = None\<rparr>,
      \<lparr>item_id = 9, source_pdf = ''a.pdf'', page_number = Num 0, order = 1,
       description = None, crop_box = None\<rparr>]) = 2 \<and>
   sorted (map order (sortedSelections
     [\<lparr>item_id = 7, source_pdf = ''a.pdf'', page_number = Num 2, order = 2,
       description = None, crop_box = None\<rparr>,
      \<lparr>item_id = 9, source_pdf = ''a.pdf'', page_number = Num 0, order = 1,
       description = None, crop_box = None\<rparr>]))"
proof -
  let ?st = "\<lparr>files = [], searchQuery = [], searchResults = [],
        cart = [\<lparr>item_id = 7, source_pdf = ''a.pdf'', page_number = Num 2, order = 2,
                 description = None, crop_box = None\<rparr>,
                \<lparr>item_id = 9, source_pdf = ''a.pdf'', page_number = Num 0, order = 1,
                 description = None, crop_box = None\<rparr>],
        isProcessing = False, cacheId = None\<rparr>"
  have h: "cart ?st \<noteq> []"
    by simp
  from generatePDF_sorted [OF h, of Throws]
  have "length (request_selections (cart ?st)) = length (cart ?st)"
    and "sorted (map order (sortedSelections (cart ?st)))"
    by blast+
  with h show ?thesis
    by simp
qed

text \<open>
  C7: the \<open>crop_box\<close> of a selection is the list \<open>[x, y, width, height]\<close> of the
  item's fractional crop, or \<open>null\<close>, and it is \<open>null\<close> exactly when the item has no
  crop. Every request that \<open>generatePDF\<close> sends carries these crop boxes, selection
  by selection, for the cart in its sorted sequence, and from a cart that is not
  empty such a request is sent. Confirming the cropper with no completed crop hands
  over \<open>null\<close>, the item added to the cart has no crop, and the request generated
  from that cart contains its selection, with a \<open>null\<close> crop_box.
\<close>

theorem crop_box_sent:
  "sel_crop_box (toSelection s) =
     (case crop_box s of None \<Rightarrow> None | Some c \<Rightarrow> Some [fx c, fy c, fwidth c, fheight c]) \<and>
   (sel_crop_box (toSelection s) = None \<longleftrightarrow> crop_box s = None) \<and>
   map sel_crop_box (request_selections items) =
     map (\<lambda>s. case crop_box s of None \<Rightarrow> None | Some c \<Rightarrow> Some [fx c, fy c, fwidth c, fheight c])
       (sortedSelections items) \<and>
   (\<forall>sels. Fetch sels \<in> set (snd (generatePDF st outcome)) \<longrightarrow>
      map sel_crop_box sels =
        map (\<lambda>s. case crop_box s of None \<Rightarrow> None | Some c \<Rightarrow> Some [fx c, fy c, fwidth c, fheight c])
          (sortedSelections (cart st)) \<and>
      (\<forall>i < length sels.
         (sel_crop_box (sels ! i) = None \<longleftrightarrow> crop_box (sortedSelections (cart st) ! i) = None))) \<and>
   (cart st \<noteq> [] \<longrightarrow>
      (\<exists>sels rest. snd (generatePDF st outcome) = Fetch sels # rest \<and>
         map sel_crop_box sels =
           map (\<lambda>s. case crop_box s of None \<Rightarrow> None | Some c \<Rightarrow> Some [fx c, fy c, fwidth c, fheight c])
             (sortedSelections (cart st)))) \<and>
   handleConfirm None imgRef = None \<and>
   cart (confirmCrop st now result None imgRef) = cart st @ [newItem st now result None] \<and>
   crop_box (newItem st now result None) = None \<and>
   sel_crop_box (toSelection (newItem st now result None)) = None \<and>
   (\<exists>sels rest. snd (generatePDF (confirmCrop st now result None imgRef) outcome) = Fetch sels # rest \<and>
      toSelection (newItem st now result None) \<in> set sels)"
proof -
  let ?box = "\<lambda>s. case crop_box s of None \<Rightarrow> None | Some c \<Rightarrow> Some [fx c, fy c, fwidth c, fheight c]"
  have one: "sel_crop_box (toSelection s) = ?box s" for s
    by (simp add: toSelection_def split: option.splits)
  have null: "sel_crop_box (toSelection s) = None \<longleftrightarrow> crop_box s = None" for s
    by (simp add: toSelection_def split: option.splits)
  have all: "map sel_crop_box (request_selections items) = map ?box (sortedSelections items)" for items
    by (simp add: request_selections_def one)
  have every: "map sel_crop_box sels = map ?box (sortedSelections (cart st)) \<and>
      (\<forall>i < length sels.
         (sel_crop_box (sels ! i) = None \<longleftrightarrow> crop_box (sortedSelections (cart st) ! i) = None))"
    if "Fetch sels \<in> set (snd (generatePDF st outcome))" for sels
  proof -
    from that have sels: "sels = request_selections (cart st)"
      by (simp add: generatePDF_Fetch_mem)
    show ?thesis
      by (simp add: sels all) (simp add: request_selections_def null)
  qed
  have sent: "\<exists>sels rest. snd (generatePDF st outcome) = Fetch sels # rest \<and>
         map sel_crop_box sels = map ?box (sortedSelections (cart st))"
    if "cart st \<noteq> []"
    using generatePDF_request [OF that, of outcome] all by blast
  have confirm: "handleConfirm None imgRef = None"
    by (simp add: handleConfirm_def)
  have appended: "cart (confirmCrop st now result None imgRef) = cart st @ [newItem st now result None]"
    by (simp add: confirmCrop_def handleApprove_def addToCart_def confirm)
  have item: "crop_box (newItem st now result None) = None"
    by (simp add: newItem_def)
  have sel: "sel_crop_box (toSelection (newItem st now result None)) = None"
    by (simp add: null item)
  have "cart (confirmCrop st now result None imgRef) \<noteq> []"
    by (simp add: appended)
  from generatePDF_request [OF this, of outcome]
  have full: "\<exists>sels rest. snd (generatePDF (confirmCrop st now result None imgRef) outcome) = Fetch sels # rest \<and>
      toSelection (newItem st now result None) \<in> set sels"
    by (auto simp add: appended request_selections_def sortedSelections_def)
  from one null all every sent confirm appended item sel full show ?thesis
    by blast
qed

theorem crop_box_sent_witness:
  "cart \<lparr>files = [], searchQuery = [], searchResults = [],
         cart = [\<lparr>item_id = 7, source_pdf = ''a.pdf'', page_number = Num 2, order = 0,
                  description = None,
                  crop_box = Some \<lparr>fx = Num (1 / 4), fy = Num (1 / 4), fwidth = Num (1 / 2), fheight = Num (1 / 2)\<rparr>\<rparr>,
                 \<lparr>item_id = 9, source_pdf = ''a.pdf'', page_number = Num 0, order = 1,
                  description = None, crop_box = None\<rparr>],
         isProcessing = False, cacheId = None\<rparr> \<noteq> [] \<and>
   (\<exists>sels rest.
      snd (generatePDF
        \<lparr>files = [], searchQuery = [], searchResults = [],
          cart = [\<lparr>item_id = 7, source_pdf = ''a.pdf'', page_number = Num 2, order = 0,
                   description = None,
                   crop_box = Some \<lparr>fx = Num (1 / 4), fy = Num (1 / 4), fwidth = Num (1 / 2), fheight = Num (1 / 2)\<rparr>\<rparr>,
                  \<lparr>item_id = 9, source_pdf = ''a.pdf'', page_number = Num 0, order = 1,
                   description = None, crop_box = None\<rparr>],
          isProcessing = False, cacheId = None\<rparr> Throws) = Fetch sels # rest \<and>
      Fetch sels \<in> set (Fetch sels # rest) \<and>
      map sel_crop_box sels = [Some [Num (1 / 4), Num (1 / 4), Num (1 / 2), Num (1 / 2)], None])"
proof -
  let ?st = "\<lparr>files = [], searchQuery = [], searchResults = [],
          cart = [\<lparr>item_id = 7, source_pdf = ''a.pdf'', page_number = Num 2, order = 0,
                   description = None,
                   crop_box = Some \<lparr>fx = Num (1 / 4), fy = Num (1 / 4), fwidth = Num (1 / 2), fheight = Num (1 / 2)\<rparr>\<rparr>,
                  \<lparr>item_id = 9, source_pdf = ''a.pdf'', page_number = Num 0, order = 1,
                   description = None, crop_box = None\<rparr>],
          isProcessing = False, cacheId = None\<rparr>"
  have h: "cart ?st \<noteq> []"
    by simp
  from crop_box_sent [of _ _ ?st Throws] h
  obtain sels rest where sent: "snd (generatePDF ?st Throws) = Fetch sels # rest"
    and boxes: "map sel_crop_box sels =
      map (\<lambda>s. case crop_box s of None \<Rightarrow> None | Some c \<Rightarrow> Some [fx c, fy c, fwidth c, fheight c])
        (sortedSelections (cart ?st))"
    by blast
  from boxes have "map sel_crop_box sels = [Some [Num (1 / 4), Num (1 / 4), Num (1 / 2), Num (1 / 2)], None]"
    by (simp add: sortedSelections_def)
  with h sent show ?thesis
    by auto
qed

section \<open>Assembly of zero selections\<close>

text \<open>
  C8: \<open>assemble\<close> on an empty list of selections fails with AssemblyError, whatever
  the store holds; it returns no pages. Its caller \<open>generatePDF\<close> sends no request
  at all from an empty cart.
\<close>

theorem assemble_empty:
  "assemble [] store = Inl AssemblyError \<and>
   (\<forall>pages. assemble [] store \<noteq> Inr pages) \<and>
   snd (generatePDF (st\<lparr>cart := []\<rparr>) outcome) = []"
  by (simp add: assemble_def generatePDF_def)

section \<open>Removing from the cart\<close>

text \<open>
  C9: \<open>removeFromCart\<close> leaves in the cart exactly the items whose id differs from
  the given one, each as it was and in the sequence they had, and changes no other
  part of the state.
\<close>

theorem removeFromCart_frame:
  "cart (removeFromCart st i) = filter (\<lambda>item. item_id item \<noteq> i) (cart st) \<and>
   set (cart (removeFromCart st i)) = {item \<in> set (cart st). item_id item \<noteq> i} \<and>
   subseq (cart (removeFromCart st i)) (cart st) \<and>
   files (removeFromCart st i) = files st \<and>
   searchQuery (removeFromCart st i) = searchQuery st \<and>
   searchResults (removeFromCart st i) = searchResults st \<and>
   isProcessing (removeFromCart st i) = isProcessing st \<and>
   cacheId (removeFromCart st i) = cacheId st"
  by (simp add: removeFromCart_def)

section \<open>The cart after a generate request\<close>

text \<open>
  C10: on an empty cart \<open>generatePDF\<close> sends nothing and returns the state as it
  was. On a cart that is not empty, the cart is empty afterwards exactly when the
  response reports success; when the request throws or reports anything else, the
  cart holds the same items as before (in the sequence the sort left them in).
\<close>

theorem generatePDF_cart:
  "(cart st = [] \<longrightarrow> generatePDF st outcome = (st, [])) \<and>
   (cart st \<noteq> [] \<longrightarrow>
      (cart (fst (generatePDF st outcome)) = [] \<longleftrightarrow> reports_success outcome) \<and>
      (\<not> reports_success outcome \<longrightarrow>
         cart (fst (generatePDF st outcome)) = sortedSelections (cart st) \<and>
         mset (cart (fst (generatePDF st outcome))) = mset (cart st)))"
  by (cases outcome)
     (auto simp add: generatePDF_def Let_def reports_success_def sortedSelections_Nil,
      auto simp add: sortedSelections_def)

theorem generatePDF_cart_witness:
  "cart \<lparr>files = [], searchQuery = [], searchResults = [], cart = [],
         isProcessing = False, cacheId = None\<rparr> = [] \<and>
   generatePDF \<lparr>files = [], searchQuery = [], searchResults = [], cart = [],
                isProcessing = False, cacheId = None\<rparr> Throws =
     (\<lparr>files = [], searchQuery = [], searchResults = [], cart = [],
       isProcessing = False, cacheId = None\<rparr>, []) \<and>
   \<not> reports_success Throws \<and>
   cart (fst (generatePDF
     \<lparr>files = [], searchQuery = [], searchResults = [],
       cart = [\<lparr>item_id = 7, source_pdf = ''a.pdf'', page_number = Num 2, order = 2,
                description = None, crop_box = None\<rparr>,
               \<lparr>item_id = 9, source_pdf = ''a.pdf'', page_number = Num 0, order = 1,
                description = None, crop_box = None\<rparr>],
       isProcessing = False, cacheId = None\<rparr> Throws)) =
     [\<lparr>item_id = 9, source_pdf = ''a.pdf'', page_number = Num 0, order = 1,
       description = None, crop_box = None\<rparr>,
      \<lparr>item_id = 7, source_pdf = ''a.pdf'', page_number = Num 2, order = 2,
       description = None, crop_box = None\<rparr>] \<and>
   reports_success (Responds (Some ''success'') (Some ''/d'')) \<and>
   cart (fst (generatePDF
     \<lparr>files = [], searchQuery = [], searchResults = [],
       cart = [\<lparr>item_id = 7, source_pdf = ''a.pdf'', page_number = Num 2, order = 2,
                description = None, crop_box = None\<rparr>],
       isProcessing = False, cacheId = None\<rparr> (Responds (Some ''success'') (Some ''/d'')))) = []"
  using
    generatePDF_cart [of
      "\<lparr>files = [], searchQuery = [], searchResults = [], cart = [],
        isProcessing = False, cacheId = None\<rparr>" Throws]
    generatePDF_cart [of
      "\<lparr>files = [], searchQuery = [], searchResults = [],
        cart = [\<lparr>item_id = 7, source_pdf = ''a.pdf'', page_number = Num 2, order = 2,
                 description = None, crop_box = None\<rparr>,
                \<lparr>item_id = 9, source_pdf = ''a.pdf'', page_number = Num 0, order = 1,
                 description = None, crop_box = None\<rparr>],
        isProcessing = False, cacheId = None\<rparr>" Throws]
    generatePDF_cart [of
      "\<lparr>files = [], searchQuery = [], searchResults = [],
        cart = [\<lparr>item_id = 7, source_pdf = ''a.pdf'', page_number = Num 2, order = 2,
                 description = None, crop_box = None\<rparr>],
        isProcessing = False, cacheId = None\<rparr>" "Responds (Some ''success'') (Some ''/d'')"]
  by (simp add: reports_success_def sortedSelections_def)

end
